theory Spec2Isabelle
  imports Main
begin

section \<open>The symbol indexer of \<^verbatim>\<open>core/services/indexer/clang_indexer.py\<close>\<close>

text \<open>
  A shallow embedding of \<^verbatim>\<open>ClangIndexer\<close> and of \<^verbatim>\<open>slice_it\<close>. Exceptions
  are values of \<open>error\<close>, the attributes of \<^verbatim>\<open>self\<close> are a record that every
  operation takes and returns, and what an operation does to the outside (parser calls,
  SQL statements, commits, log lines, the completion callback) is appended to a trace.
\<close>

subsection \<open>Errors and request arguments\<close>

datatype error =
    AttributeError
  | IndexError
  | ValueError
  | TypeError
  | ZeroDivisionError
  | IntegrityError

text \<open>
  A request is a Python list. The source reads an element only through \<^verbatim>\<open>str(x)\<close>
  and \<^verbatim>\<open>int(x)\<close>, so an element is modelled by what these two conversions give on
  it: \<^verbatim>\<open>str\<close> always returns, \<^verbatim>\<open>int\<close> returns or raises.
\<close>

datatype arg = Arg (py_str: string) (py_int: "error + int")

text \<open>\<^verbatim>\<open>xs[i]\<close> for \<open>i \<ge> 0\<close>: IndexError out of range.\<close>

definition item :: "'a list \<Rightarrow> nat \<Rightarrow> error + 'a" where
  "item xs i = (if i < length xs then Inr (xs ! i) else Inl IndexError)"

subsection \<open>Slicing the file list\<close>

text \<open>
  \<^verbatim>\<open>izip_longest(*[iter(iterable)]*n, fillvalue=padvalue)\<close>: the \<open>n\<close> arguments are
  one and the same iterator, so every tuple takes the next \<open>n\<close> elements of the
  iterable; a tuple that the iterable cannot fill is padded with \<^verbatim>\<open>padvalue\<close>
  (\<^verbatim>\<open>None\<close>, the default, which every call of the source uses), and no tuple is
  produced once the iterator is exhausted at the start of a tuple. With \<open>n = 0\<close> there
  is no argument at all and \<^verbatim>\<open>izip_longest()\<close> yields nothing.
\<close>

function slice_it :: "'a list \<Rightarrow> nat \<Rightarrow> 'a option list list" where
  "slice_it iterable n =
     (if n = 0 \<or> iterable = [] then []
      else (map Some (take n iterable) @ replicate (n - length (take n iterable)) None)
             # slice_it (drop n iterable) n)"
  by pat_completeness auto
termination
  by (relation "measure (\<lambda>(iterable, n). length iterable)") auto

declare slice_it.simps [simp del]

text \<open>
  Line 129: \<^verbatim>\<open>slice_it(cpp_file_list, len(cpp_file_list)/self.cpu_count)\<close>, with
  Python 2's integer division.
\<close>

definition cpp_file_list_sliced :: "string list \<Rightarrow> nat \<Rightarrow> error + string option list list" where
  "cpp_file_list_sliced cpp_file_list cpu_count =
     (if cpu_count = 0 then Inl ZeroDivisionError
      else Inr (slice_it cpp_file_list (length cpp_file_list div cpu_count)))"

text \<open>The files a worker handles in a slice: line 256 skips the padding.\<close>

definition files_of_slice :: "string option list \<Rightarrow> string list" where
  "files_of_slice slice = concat (map (\<lambda>filename. case filename of None \<Rightarrow> [] | Some f \<Rightarrow> if f = [] then [] else [f]) slice)"

subsection \<open>Paths\<close>

text \<open>
  \<^verbatim>\<open>os.path.join(a, b)\<close> of \<^verbatim>\<open>posixpath\<close>: an absolute \<open>b\<close> replaces \<open>a\<close>;
  otherwise \<open>a\<close> is asked \<^verbatim>\<open>a.endswith('/')\<close>, which raises AttributeError when
  \<open>a\<close> is \<^verbatim>\<open>None\<close>.
\<close>

definition posix_join :: "string \<Rightarrow> string \<Rightarrow> string" where
  "posix_join a b =
     (if take 1 b = ''/'' then b
      else if a = [] \<or> last a = CHR ''/'' then a @ b
      else a @ ''/'' @ b)"

definition os_path_join :: "string option \<Rightarrow> string \<Rightarrow> error + string" where
  "os_path_join a b =
     (if take 1 b = ''/'' then Inr b
      else case a of None \<Rightarrow> Inl AttributeError | Some path \<Rightarrow> Inr (posix_join path b))"

text \<open>\<^verbatim>\<open>p.rfind(c)\<close>: the last index of \<open>c\<close>, or \<open>-1\<close>.\<close>

definition rfind :: "char \<Rightarrow> string \<Rightarrow> int" where
  "rfind c p =
     (case filter (\<lambda>i. p ! i = c) (rev [0..<length p]) of [] \<Rightarrow> - 1 | i # _ \<Rightarrow> int i)"

text \<open>
  \<^verbatim>\<open>os.path.splitext(p)\<close>: split at the last dot of the last component, unless that
  component has only dots before it.
\<close>

definition splitext :: "string \<Rightarrow> string \<times> string" where
  "splitext p =
     (let sepIndex = rfind CHR ''/'' p; dotIndex = rfind CHR ''.'' p
      in if dotIndex > sepIndex \<and>
            list_ex (\<lambda>i. p ! i \<noteq> CHR ''.'') [nat (sepIndex + 1)..<nat dotIndex]
         then (take (nat dotIndex) p, drop (nat dotIndex) p)
         else (p, []))"

subsection \<open>The external parser\<close>

text \<open>
  The tags of \<^verbatim>\<open>ASTNodeId\<close> that the source names, and \<open>OtherId\<close> for every other tag
  of that taxonomy (the \<^verbatim>\<open>else\<close> branches of lines 197 and 228).
\<close>

datatype ASTNodeId =
    FunctionId | MethodId
  | ClassId | StructId | EnumId | EnumValueId | UnionId | TypedefId
  | LocalVariableId | FunctionParameterId | FieldId
  | MacroDefinitionId | MacroInstantiationId
  | OtherId

datatype ChildVisitResult = CONTINUE | RECURSE

datatype location = Location (loc_file: "string option") (loc_line: int) (loc_column: int)

text \<open>
  A cursor: its location (\<^verbatim>\<open>location.file\<close> is \<^verbatim>\<open>None\<close> or a file with a name),
  its own USR, the cursor it references (\<^verbatim>\<open>None\<close> when it references nothing) and
  its children.
\<close>

datatype Cursor =
  Cursor (location: location) (get_usr: string) (referenced: "Cursor option")
         (get_children: "Cursor list")

record tunit =
  spelling :: string
  cursor :: Cursor

text \<open>
  The methods of \<^verbatim>\<open>self.parser\<close> that the indexer calls. They are not part of this
  source file and are parameters of the model. \<open>parse\<close> receives
  \<^verbatim>\<open>self.compiler_args\<close> and \<^verbatim>\<open>self.proj_root_directory\<close> from the two query
  operations, which may still be \<^verbatim>\<open>None\<close>.
\<close>

record clang_parser =
  parse :: "string \<Rightarrow> string \<Rightarrow> string option \<Rightarrow> string option \<Rightarrow> tunit option"
  get_definition :: "tunit option \<Rightarrow> int \<Rightarrow> int \<Rightarrow> Cursor option"
  map_source_location_to_cursor :: "tunit \<Rightarrow> int \<Rightarrow> int \<Rightarrow> Cursor option"
  get_ast_node_id :: "Cursor \<Rightarrow> ASTNodeId"
  get_ast_node_line :: "Cursor \<Rightarrow> int"
  get_ast_node_column :: "Cursor \<Rightarrow> int"

text \<open>
  Modelled from the spec: \<^verbatim>\<open>parser.traverse(root_node, context, visitor)\<close> is
  missing from the source. The spec gives it as a depth-first traversal in which the
  visitor answers, for each visited node, continue-to-sibling or recurse-into-children;
  the nodes visited are those below the root, first to last, each with its parent.
  The visitor's effect on the store is threaded through as \<open>db\<close>, and an exception
  that leaves the visitor ends the traversal.
\<close>

function traverse_children ::
  "(Cursor \<Rightarrow> Cursor \<Rightarrow> 'db \<Rightarrow> error + 'db \<times> ChildVisitResult)
     \<Rightarrow> Cursor \<Rightarrow> Cursor list \<Rightarrow> 'db \<Rightarrow> error + 'db" where
  "traverse_children visitor parent [] db = Inr db"
| "traverse_children visitor parent (node # siblings) db =
     (case visitor node parent db of
        Inl e \<Rightarrow> Inl e
      | Inr (db1, CONTINUE) \<Rightarrow> traverse_children visitor parent siblings db1
      | Inr (db1, RECURSE) \<Rightarrow>
          (case traverse_children visitor node (get_children node) db1 of
             Inl e \<Rightarrow> Inl e
           | Inr db2 \<Rightarrow> traverse_children visitor parent siblings db2))"
  by pat_completeness auto
termination
  apply (relation "measure (\<lambda>(visitor, parent, nodes, db). size_list size nodes)")
     apply auto
  subgoal for visitor parent node siblings db db1
    by (cases node) auto
  done

definition traverse ::
  "Cursor \<Rightarrow> (Cursor \<Rightarrow> Cursor \<Rightarrow> 'db \<Rightarrow> error + 'db \<times> ChildVisitResult) \<Rightarrow> 'db \<Rightarrow> error + 'db" where
  "traverse root_node visitor db = traverse_children visitor root_node (get_children root_node) db"

subsection \<open>The store\<close>

text \<open>
  A row of table \<^verbatim>\<open>symbol\<close>: filename, usr, line, column, type. The store holds the
  two tables of lines 115 and 116; statements on a store file whose tables were never
  created are outside the model. A connection works on the content it found when it was
  opened plus its own statements (\<open>current\<close>); \<open>committed\<close> is what is durable.
  Connections are used one after the other: no interleaving is modelled.
\<close>

type_synonym row = "string \<times> string \<times> int \<times> int \<times> int"

record database =
  symbol_type :: "(int \<times> string) list"
  symbol :: "row list"

definition empty_database :: database where
  "empty_database = \<lparr>symbol_type = [], symbol = []\<rparr>"

record connection =
  conn_path :: string
  committed :: database
  current :: database

text \<open>\<^verbatim>\<open>PRIMARY KEY(filename, usr, line, column)\<close> of line 116.\<close>

definition primary_key :: "row \<Rightarrow> string \<times> string \<times> int \<times> int" where
  "primary_key = (\<lambda>(filename, usr, line, column, type). (filename, usr, line, column))"

text \<open>
  \<^verbatim>\<open>INSERT INTO symbol VALUES (?, ?, ?, ?, ?)\<close>: sqlite3.IntegrityError when the
  primary key is already in the table.
\<close>

definition insert_symbol :: "connection \<Rightarrow> row \<Rightarrow> error + connection" where
  "insert_symbol db r =
     (if primary_key r \<in> set (map primary_key (symbol (current db))) then Inl IntegrityError
      else Inr (db\<lparr>current := (current db)\<lparr>symbol := symbol (current db) @ [r]\<rparr>\<rparr>))"

text \<open>
  \<^verbatim>\<open>executemany('INSERT INTO symbol_type VALUES (?, ?)', rows)\<close>, with
  \<^verbatim>\<open>PRIMARY KEY(id)\<close> of line 115.
\<close>

fun insert_symbol_types :: "connection \<Rightarrow> (int \<times> string) list \<Rightarrow> error + connection" where
  "insert_symbol_types db [] = Inr db"
| "insert_symbol_types db (t # ts) =
     (if fst t \<in> set (map fst (symbol_type (current db))) then Inl IntegrityError
      else insert_symbol_types
             (db\<lparr>current := (current db)\<lparr>symbol_type := symbol_type (current db) @ [t]\<rparr>\<rparr>) ts)"

text \<open>
  \<^verbatim>\<open>self.db.cursor().execute("SELECT * FROM symbol WHERE usr=?", (usr,))\<close>:
  AttributeError while \<^verbatim>\<open>self.db\<close> is \<^verbatim>\<open>None\<close>.
\<close>

definition select_symbol_where_usr :: "connection option \<Rightarrow> string \<Rightarrow> error + row list" where
  "select_symbol_where_usr db usr =
     (case db of
        None \<Rightarrow> Inl AttributeError
      | Some c \<Rightarrow> Inr (filter (\<lambda>(filename, usr', line, column, type). usr' = usr) (symbol (current c))))"

subsection \<open>The outside world\<close>

datatype level = DEBUG | INFO | ERROR

datatype payload =
    Args "arg list"
  | Loc "location option"
  | References "(string \<times> string \<times> int \<times> int) list"

text \<open>
  What an operation does to the outside, in order: connections opened, parser runs
  (with the four arguments of \<^verbatim>\<open>parse\<close>), commits, log lines (by level) and calls
  of the completion callback.
\<close>

datatype event =
    Connect string
  | Parse string string "string option" "string option"
  | Commit string
  | Log level
  | Callback int payload

text \<open>
  \<open>files\<close> gives the durable content of the store file at a path, if that file exists;
  \<open>walk\<close> is \<^verbatim>\<open>os.walk\<close>: the \<^verbatim>\<open>(dirpath, dirs, files)\<close> triples below a
  directory.
\<close>

record world =
  files :: "string \<Rightarrow> database option"
  walk :: "string \<Rightarrow> (string \<times> string list \<times> string list) list"
  trace :: "event list"

definition emit :: "event \<Rightarrow> world \<Rightarrow> world" where
  "emit e w = w\<lparr>trace := trace w @ [e]\<rparr>"

definition os_path_exists :: "world \<Rightarrow> string \<Rightarrow> bool" where
  "os_path_exists w path = (files w path \<noteq> None)"

text \<open>\<^verbatim>\<open>sqlite3.connect(path)\<close> creates an empty store file when there is none.\<close>

definition connect :: "string \<Rightarrow> world \<Rightarrow> connection \<times> world" where
  "connect path w =
     (let stored = (case files w path of None \<Rightarrow> empty_database | Some d \<Rightarrow> d)
      in (\<lparr>conn_path = path, committed = stored, current = stored\<rparr>,
          emit (Connect path) (w\<lparr>files := (files w)(path \<mapsto> stored)\<rparr>)))"

definition commit :: "connection \<Rightarrow> world \<Rightarrow> connection \<times> world" where
  "commit db w =
     (db\<lparr>committed := current db\<rparr>,
      emit (Commit (conn_path db)) (w\<lparr>files := (files w)(conn_path db \<mapsto> current db)\<rparr>))"

subsection \<open>The indexer\<close>

text \<open>
  The attributes of \<^verbatim>\<open>self\<close> that change or are read: \<open>callback\<close> is whether a
  callback was given (line 58 tests its truth), \<open>cpu_count\<close> is what
  \<^verbatim>\<open>multiprocessing.cpu_count()\<close> returned.
\<close>

record ClangIndexer =
  callback :: bool
  db :: "connection option"
  cpu_count :: nat
  proj_root_directory :: "string option"
  compiler_args :: "string option"
  parser :: clang_parser

definition indexer_db_name :: string where
  "indexer_db_name = ''indexer.db''"

definition init :: "clang_parser \<Rightarrow> bool \<Rightarrow> nat \<Rightarrow> ClangIndexer" where
  "init p cb cpus =
     \<lparr>callback = cb, db = None, cpu_count = cpus, proj_root_directory = None,
      compiler_args = None, parser = p\<rparr>"

text \<open>Sequencing of steps that may raise: the first exception ends the run.\<close>

definition then_do :: "error + 'a \<Rightarrow> ('a \<Rightarrow> error + 'b) \<Rightarrow> error + 'b" where
  "then_do m f = (case m of Inl e \<Rightarrow> Inl e | Inr x \<Rightarrow> f x)"

type_synonym handler = "ClangIndexer \<Rightarrow> world \<Rightarrow> int \<Rightarrow> arg list \<Rightarrow> error + ClangIndexer \<times> world"

text \<open>
  Lines 213 to 233, the visitor of \<^verbatim>\<open>__index_single_file\<close>, closed over \<open>tunit\<close>
  and the connection \<open>db\<close>. Only sqlite3.IntegrityError is caught.
\<close>

definition visitor ::
  "clang_parser \<Rightarrow> tunit \<Rightarrow> Cursor \<Rightarrow> Cursor \<Rightarrow> connection \<Rightarrow> error + connection \<times> ChildVisitResult" where
  "visitor parser' tunit ast_node ast_parent_node db' =
     (if (case loc_file (location ast_node) of None \<Rightarrow> False | Some name \<Rightarrow> name = spelling tunit)
      then
        (let id' = get_ast_node_id parser' ast_node;
             usr = (case referenced ast_node of Some r \<Rightarrow> get_usr r | None \<Rightarrow> get_usr ast_node);
             line = get_ast_node_line parser' ast_node;
             column = get_ast_node_column parser' ast_node
         in case
              (if id' \<in> set [FunctionId, MethodId]
               then insert_symbol db' (spelling tunit, usr, line, column, 1)
               else if id' \<in> set [ClassId, StructId, EnumId, EnumValueId, UnionId, TypedefId]
               then insert_symbol db' (spelling tunit, usr, line, column, 3)
               else if id' \<in> set [LocalVariableId, FunctionParameterId, FieldId]
               then insert_symbol db' (spelling tunit, usr, line, column, 2)
               else if id' \<in> set [MacroDefinitionId, MacroInstantiationId]
               then insert_symbol db' (spelling tunit, usr, line, column, 4)
               else Inr db')
            of
              Inl e \<Rightarrow> (if e = IntegrityError then Inr (db', RECURSE) else Inl e)
            | Inr db1 \<Rightarrow> Inr (db1, RECURSE))
      else Inr (db', CONTINUE))"

text \<open>Lines 212 to 251.\<close>

definition index_single_file ::
  "ClangIndexer \<Rightarrow> world \<Rightarrow> string \<Rightarrow> string \<Rightarrow> string \<Rightarrow> string \<Rightarrow> connection
     \<Rightarrow> error + connection \<times> world" where
  "index_single_file self w proj_root contents_filename original_filename cargs db' =
     (let w1 = emit (Log INFO) w;
          w2 = emit (Parse contents_filename original_filename (Some cargs) (Some proj_root)) w1
      in case parse (parser self) contents_filename original_filename (Some cargs) (Some proj_root) of
           None \<Rightarrow> Inr (db', emit (Log INFO) w2)
         | Some tunit \<Rightarrow>
             then_do (traverse (cursor tunit) (visitor (parser self) tunit) db')
               (\<lambda>db1. Inr (db1, emit (Log INFO) w2)))"

text \<open>
  Lines 253 to 257, the body of a worker process. The loop of lines 255 to 257 is
  \<open>index_files\<close>; line 256 skips \<^verbatim>\<open>None\<close> and the empty string. The source
  returns nothing; the model returns the worker's connection as the function leaves it,
  so that what is still uncommitted there can be read off.
\<close>

fun index_files ::
  "ClangIndexer \<Rightarrow> string \<Rightarrow> string \<Rightarrow> string option list \<Rightarrow> connection \<times> world
     \<Rightarrow> error + connection \<times> world" where
  "index_files self proj_root cargs [] (db', w) = Inr (db', w)"
| "index_files self proj_root cargs (filename # rest) (db', w) =
     (case filename of
        None \<Rightarrow> index_files self proj_root cargs rest (db', w)
      | Some f \<Rightarrow>
          if f = [] then index_files self proj_root cargs rest (db', w)
          else then_do (index_single_file self w proj_root f f cargs db')
                 (index_files self proj_root cargs rest))"

definition run_on_directory_impl ::
  "ClangIndexer \<Rightarrow> world \<Rightarrow> string \<Rightarrow> string \<Rightarrow> string option list \<Rightarrow> error + connection \<times> world" where
  "run_on_directory_impl self w proj_root cargs filename_list =
     then_do (os_path_join (proj_root_directory self) indexer_db_name)
       (\<lambda>path. index_files self proj_root cargs filename_list (connect path w))"

text \<open>Lines 43 and 44.\<close>

definition unknown_op :: handler where
  "unknown_op self w id' args = Inr (self, emit (Log ERROR) w)"

text \<open>Lines 46 to 59.\<close>

definition run_on_single_file :: handler where
  "run_on_single_file self w id' args =
     then_do (item args 0) (\<lambda>a0. then_do (item args 1) (\<lambda>a1.
     then_do (item args 2) (\<lambda>a2. then_do (item args 3) (\<lambda>a3.
       let proj_root = py_str a0;
           contents_filename = py_str a1;
           original_filename = py_str a2;
           cargs = py_str a3
       in then_do (os_path_join (proj_root_directory self) indexer_db_name) (\<lambda>path.
            case connect path w of (db0, w1) \<Rightarrow>
              then_do
                (if contents_filename = original_filename
                 then then_do
                        (index_single_file self w1 proj_root contents_filename
                           original_filename cargs db0)
                        (\<lambda>(db1, w2). Inr (commit db1 w2))
                 else Inr (db0, w1))
                (\<lambda>(db2, w3).
                   Inr (self\<lparr>db := Some db2\<rparr>,
                        if callback self then emit (Callback id' (Args args)) w3 else w3)))))))"

text \<open>Lines 117 and 121 to 125.\<close>

definition symbol_types :: "(int \<times> string) list" where
  "symbol_types = [(1, ''function''), (2, ''variable''), (3, ''user_defined_type''), (4, ''macro'')]"

definition cpp_file_list_of :: "(string \<times> string list \<times> string list) list \<Rightarrow> string list" where
  "cpp_file_list_of triples =
     concat (map (\<lambda>(dirpath, dirs, files').
               map (posix_join dirpath)
                 (filter (\<lambda>file. snd (splitext file) \<in>
                            set [''.cpp'', ''.cc'', ''.cxx'', ''.c'', ''.h'', ''.hh'', ''.hpp''])
                    files'))
             triples)"

text \<open>
  Lines 131 to 137: one process per slice, each running \<open>run_on_directory_impl\<close> on its
  own copy of \<^verbatim>\<open>self\<close>; the parent waits for all of them. The processes are run one
  after the other here. A worker's connection ends with its process, and an exception in
  a worker ends that process only.
\<close>

fun run_workers ::
  "ClangIndexer \<Rightarrow> string \<Rightarrow> string \<Rightarrow> string option list list \<Rightarrow> world \<Rightarrow> world" where
  "run_workers self proj_root cargs [] w = w"
| "run_workers self proj_root cargs (slice # rest) w =
     run_workers self proj_root cargs rest
       (case run_on_directory_impl self w proj_root cargs slice of
          Inl e \<Rightarrow> w
        | Inr (db', w1) \<Rightarrow> w1)"

text \<open>
  Lines 61 to 148. The two \<^verbatim>\<open>CREATE TABLE IF NOT EXISTS\<close> statements leave the
  modelled store as it is.
\<close>

definition run_on_directory :: handler where
  "run_on_directory self w id' args =
     then_do (item args 0) (\<lambda>a0. then_do (item args 1) (\<lambda>a1.
       let proj_root = py_str a0;
           cargs = py_str a1;
           self1 = self\<lparr>proj_root_directory := Some proj_root, compiler_args := Some cargs\<rparr>;
           indexer_directory_full_path = posix_join proj_root indexer_db_name;
           directory_already_indexed = os_path_exists w indexer_directory_full_path
       in case connect (posix_join proj_root indexer_db_name) w of (db0, w1) \<Rightarrow>
            then_do
              (if \<not> directory_already_indexed
               then
                 (case connect (posix_join proj_root indexer_db_name) (emit (Log INFO) w1) of
                    (db1, w2) \<Rightarrow>
                      then_do (insert_symbol_types db1 symbol_types) (\<lambda>db2.
                      then_do (cpp_file_list_sliced (cpp_file_list_of (walk w2 proj_root))
                                 (cpu_count self1)) (\<lambda>slices.
                        case commit db2
                               (run_workers (self1\<lparr>db := Some db2\<rparr>) proj_root cargs slices w2) of
                          (db3, w3) \<Rightarrow> Inr (db3, emit (Log INFO) w3))))
               else Inr (db0, emit (Log INFO) w1))
              (\<lambda>(db4, w4).
                 Inr (self1\<lparr>db := Some db4\<rparr>,
                      if callback self then emit (Callback id' (Args args)) w4 else w4))))"

text \<open>Lines 150 to 159.\<close>

definition drop_single_file :: handler where
  "drop_single_file self w id' args =
     Inr (self, if callback self then emit (Callback id' (Args args)) w else w)"

definition drop_all :: handler where
  "drop_all self w id' dummy =
     Inr (self, if callback self then emit (Callback id' (Args dummy)) w else w)"

text \<open>Lines 161 to 177.\<close>

definition go_to_definition :: handler where
  "go_to_definition self w id' args =
     then_do (item args 0) (\<lambda>a0.
       let w1 = emit (Parse (py_str a0) (py_str a0) (compiler_args self) (proj_root_directory self)) w;
           tunit = parse (parser self) (py_str a0) (py_str a0) (compiler_args self)
                     (proj_root_directory self)
       in then_do (item args 1) (\<lambda>a1. then_do (py_int a1) (\<lambda>line.
          then_do (item args 2) (\<lambda>a2. then_do (py_int a2) (\<lambda>column.
            let cursor' = get_definition (parser self) tunit line column;
                w2 = emit (Log INFO) w1
            in Inr (self,
                    if callback self then emit (Callback id' (Loc (map_option location cursor'))) w2
                    else w2))))))"

text \<open>
  Lines 179 to 210. \<open>query_result\<close> is \<^verbatim>\<open>None\<close> in the last branch; a cursor object
  of sqlite3 is true, so line 200 only tests for that \<^verbatim>\<open>None\<close>. Line 203 logs each
  row.
\<close>

definition find_all_references :: handler where
  "find_all_references self w id' args =
     then_do (item args 0) (\<lambda>a0.
       let w1 = emit (Parse (py_str a0) (py_str a0) (compiler_args self) (proj_root_directory self)) w
       in then_do
            (case parse (parser self) (py_str a0) (py_str a0) (compiler_args self)
                    (proj_root_directory self) of
               None \<Rightarrow> Inr ([], w1)
             | Some tunit \<Rightarrow>
                 then_do (item args 1) (\<lambda>a1. then_do (py_int a1) (\<lambda>line.
                 then_do (item args 2) (\<lambda>a2. then_do (py_int a2) (\<lambda>column.
                   case map_source_location_to_cursor (parser self) tunit line column of
                     None \<Rightarrow> Inr ([], w1)
                   | Some cursor' \<Rightarrow>
                       (let w2 = emit (Log INFO) w1;
                            usr = (case referenced cursor' of
                                     Some r \<Rightarrow> get_usr r
                                   | None \<Rightarrow> get_usr cursor');
                            ast_node_id = get_ast_node_id (parser self) cursor'
                        in then_do
                             (if ast_node_id \<in> set [FunctionId, MethodId]
                              then then_do (select_symbol_where_usr (db self) usr)
                                     (\<lambda>rows. Inr (Some rows))
                              else if ast_node_id \<in>
                                        set [ClassId, StructId, EnumId, EnumValueId, UnionId, TypedefId]
                              then then_do (select_symbol_where_usr (db self) usr)
                                     (\<lambda>rows. Inr (Some rows))
                              else if ast_node_id \<in>
                                        set [LocalVariableId, FunctionParameterId, FieldId]
                              then then_do (select_symbol_where_usr (db self) usr)
                                     (\<lambda>rows. Inr (Some rows))
                              else if ast_node_id \<in> set [MacroDefinitionId, MacroInstantiationId]
                              then then_do (select_symbol_where_usr (db self) usr)
                                     (\<lambda>rows. Inr (Some rows))
                              else Inr None)
                             (\<lambda>query_result.
                                case query_result of
                                  None \<Rightarrow> Inr ([], w2)
                                | Some rows \<Rightarrow>
                                    Inr (map (\<lambda>(filename, usr', line', column', type).
                                                (filename, usr', line', column')) rows,
                                         fold (\<lambda>row. emit (Log DEBUG)) rows w2))))))))
            (\<lambda>(references, w3).
               let w4 = emit (Log INFO) (emit (Log INFO) w3)
               in Inr (self,
                       if callback self then emit (Callback id' (References references)) w4
                       else w4)))"

text \<open>Lines 30 to 41: the table of operations and the dispatch.\<close>

definition op :: "int \<Rightarrow> handler option" where
  "op code =
     (if code = 0 then Some run_on_single_file
      else if code = 1 then Some run_on_directory
      else if code = 2 then Some drop_single_file
      else if code = 3 then Some drop_all
      else if code = 16 then Some go_to_definition
      else if code = 17 then Some find_all_references
      else None)"

definition call :: "ClangIndexer \<Rightarrow> world \<Rightarrow> arg list \<Rightarrow> error + ClangIndexer \<times> world" where
  "call self w args =
     then_do (item args 0) (\<lambda>a0. then_do (py_int a0) (\<lambda>code.
       (case op code of Some h \<Rightarrow> h | None \<Rightarrow> unknown_op) self w code (drop 1 args)))"

subsection \<open>Notions used in the statements\<close>


text \<open>
  The four stored kinds as the specification gives them (its sections 3 and 6): function
  and method are kind 1, local variable, parameter and field are kind 2, class, struct,
  enum, enum value, union and typedef are kind 3, macro definition and instantiation are
  kind 4; a node of any other tag has no stored kind. This follows the specification's
  words and is compared with the branches of the source below.
\<close>

definition spec_kind :: "ASTNodeId \<Rightarrow> int option" where
  "spec_kind k =
     (if k = FunctionId \<or> k = MethodId then Some 1
      else if k = LocalVariableId \<or> k = FunctionParameterId \<or> k = FieldId then Some 2
      else if k = ClassId \<or> k = StructId \<or> k = EnumId \<or> k = EnumValueId \<or> k = UnionId \<or> k = TypedefId
      then Some 3
      else if k = MacroDefinitionId \<or> k = MacroInstantiationId then Some 4
      else None)"

text \<open>
  The primary key of the row that lines 216 to 227 build for a node: the unit's
  spelling, the \<open>usr\<close> of line 216, and the line and column of lines 217 and 218.
\<close>

definition symbol_key :: "clang_parser \<Rightarrow> tunit \<Rightarrow> Cursor \<Rightarrow> string \<times> string \<times> int \<times> int" where
  "symbol_key p tu n =
     (spelling tu, (case referenced n of Some r \<Rightarrow> get_usr r | None \<Rightarrow> get_usr n),
      get_ast_node_line p n, get_ast_node_column p n)"

text \<open>The commits among the events of a run.\<close>

fun is_commit :: "event \<Rightarrow> bool" where
  "is_commit (Commit path) = True"
| "is_commit e = False"

subsection \<open>Example inputs\<close>

text \<open>
  A request element that is a Python string with no integer reading, and a small
  project: the unit of a file \<open>f\<close> has a namespace in \<open>f\<close> holding the declaration
  of \<^verbatim>\<open>foo\<close>, a function \<^verbatim>\<open>bar\<close> that comes from the header \<^verbatim>\<open>/p/a.h\<close>, and a
  call of \<^verbatim>\<open>foo\<close> in \<open>f\<close>. The classifier tags functions and references to
  functions as \<open>FunctionId\<close> and everything else as \<open>OtherId\<close>.
\<close>

definition str_arg :: "string \<Rightarrow> arg" where
  "str_arg s = Arg s (Inl ValueError)"

definition demo_foo :: "string \<Rightarrow> Cursor" where
  "demo_foo f = Cursor (Location (Some f) 1 5) ''c:@F@foo#'' None []"

definition demo_call :: "string \<Rightarrow> Cursor" where
  "demo_call f = Cursor (Location (Some f) 2 12) [] (Some (demo_foo f)) []"

definition demo_namespace :: "string \<Rightarrow> Cursor" where
  "demo_namespace f = Cursor (Location (Some f) 1 1) ''c:@N@ns'' None [demo_foo f]"

definition demo_header_function :: Cursor where
  "demo_header_function =
     Cursor (Location (Some ''/p/a.h'') 3 6) ''c:@F@bar#'' None
       [Cursor (Location (Some ''/p/a.h'') 3 14) ''c:@F@baz#'' None []]"

definition demo_unit :: "string \<Rightarrow> tunit" where
  "demo_unit f =
     \<lparr>spelling = f,
      cursor = Cursor (Location None 0 0) [] None
                 [demo_namespace f, demo_header_function, demo_call f]\<rparr>"

definition demo_parser :: clang_parser where
  "demo_parser =
     \<lparr>parse = (\<lambda>contents_filename original_filename cargs proj_root.
                 if contents_filename = ''/p/broken.cpp'' then None
                 else Some (demo_unit original_filename)),
      get_definition = (\<lambda>tunit line column.
                 case tunit of
                   None \<Rightarrow> None
                 | Some t \<Rightarrow> if (line, column) = (2, 12) then Some (demo_foo (spelling t)) else None),
      map_source_location_to_cursor = (\<lambda>tunit line column.
                 if (line, column) = (2, 12) then Some (demo_call (spelling tunit))
                 else if (line, column) = (1, 5) then Some (demo_foo (spelling tunit))
                 else None),
      get_ast_node_id = (\<lambda>c.
                 if take 5 (case referenced c of Some r \<Rightarrow> get_usr r | None \<Rightarrow> get_usr c) = ''c:@F@''
                 then FunctionId else OtherId),
      get_ast_node_line = (\<lambda>c. loc_line (location c)),
      get_ast_node_column = (\<lambda>c. loc_column (location c))\<rparr>"

text \<open>A machine on which no store file exists yet, with one source file below \<^verbatim>\<open>/p\<close>.\<close>

definition demo_world :: world where
  "demo_world =
     \<lparr>files = Map.empty,
      walk = (\<lambda>d. if d = ''/p''
                   then [(''/p'', [''doc''], [''a.cpp'', ''README'']), (''/p/doc'', [], [''notes.txt''])]
                   else []),
      trace = []\<rparr>"

text \<open>A connection whose store already holds the declaration of \<^verbatim>\<open>foo\<close> in \<^verbatim>\<open>/p/a.cpp\<close>.\<close>

definition demo_store :: connection where
  "demo_store =
     \<lparr>conn_path = ''/p/indexer.db'',
      committed = \<lparr>symbol_type = symbol_types, symbol = [(''/p/a.cpp'', ''c:@F@foo#'', 1, 5, 1)]\<rparr>,
      current = \<lparr>symbol_type = symbol_types, symbol = [(''/p/a.cpp'', ''c:@F@foo#'', 1, 5, 1)]\<rparr>\<rparr>"

text \<open>
  A connection whose store holds the declaration and the call of \<^verbatim>\<open>foo\<close> and a
  function of another file.
\<close>

definition demo_indexed_store :: connection where
  "demo_indexed_store =
     \<lparr>conn_path = ''/p/indexer.db'',
      committed = \<lparr>symbol_type = symbol_types,
                   symbol = [(''/p/a.cpp'', ''c:@F@foo#'', 1, 5, 1), (''/p/b.cpp'', ''c:@F@bar#'', 3, 6, 1),
                             (''/p/a.cpp'', ''c:@F@foo#'', 2, 12, 1)]\<rparr>,
      current = \<lparr>symbol_type = symbol_types,
                 symbol = [(''/p/a.cpp'', ''c:@F@foo#'', 1, 5, 1), (''/p/b.cpp'', ''c:@F@bar#'', 3, 6, 1),
                           (''/p/a.cpp'', ''c:@F@foo#'', 2, 12, 1)]\<rparr>\<rparr>"

text \<open>A machine on which the store of \<^verbatim>\<open>/p\<close> exists with that content.\<close>

definition demo_indexed_world :: world where
  "demo_indexed_world =
     \<lparr>files = [''/p/indexer.db'' \<mapsto> committed demo_indexed_store],
      walk = walk demo_world,
      trace = []\<rparr>"

section \<open>Properties\<close>

subsection \<open>Slicing\<close>

text \<open>
  With a slice length of at least one, the slices hold the files of the list in order,
  each once; line 256 drops the padding.
\<close>

lemma files_of_padded_slice:
  "files_of_slice (map Some ys @ replicate k None) = filter (\<lambda>f. f \<noteq> []) ys"
  by (induction ys) (auto simp: files_of_slice_def)

lemma slice_it_covers:
  "0 < n \<Longrightarrow> concat (map files_of_slice (slice_it xs n)) = filter (\<lambda>f. f \<noteq> []) xs"
proof (induction xs n rule: slice_it.induct)
  case (1 iterable n)
  show ?case
  proof (cases "iterable = []")
    case True
    then show ?thesis by (simp add: slice_it.simps)
  next
    case False
    have "concat (map files_of_slice (slice_it iterable n))
          = filter (\<lambda>f. f \<noteq> []) (take n iterable)
            @ concat (map files_of_slice (slice_it (drop n iterable) n))"
      using False "1.prems" by (subst slice_it.simps) (simp add: files_of_padded_slice)
    also have "\<dots> = filter (\<lambda>f. f \<noteq> []) (take n iterable) @ filter (\<lambda>f. f \<noteq> []) (drop n iterable)"
      using "1.IH" False "1.prems" by simp
    also have "\<dots> = filter (\<lambda>f. f \<noteq> []) iterable"
      by (simp flip: filter_append)
    finally show ?thesis .
  qed
qed

text \<open>
  Claim C2: for every file list and every worker count \<open>N \<ge> 1\<close> the partition gives
  \<open>N\<close> near-equal contiguous slices that together hold every file exactly once.

  The source passes \<^verbatim>\<open>len(cpp_file_list)/self.cpu_count\<close> to \<open>slice_it\<close> as the
  length of a slice. With one file and two processing units that length is 0 and there
  is no slice at all, so the file reaches no worker; with five files and two processing
  units the length is 2 and there are three slices, not two.
\<close>

theorem slicing_one_file_two_units:
  "cpp_file_list_sliced [''/p/a.cpp''] 2 = Inr [] \<and>
   cpp_file_list_sliced [''a.c'', ''b.c'', ''c.c'', ''d.c'', ''e.c''] 2
     = Inr [[Some ''a.c'', Some ''b.c''], [Some ''c.c'', Some ''d.c''], [Some ''e.c'', None]]"
  by (simp add: cpp_file_list_sliced_def slice_it.simps)

subsection \<open>Workers and commits\<close>


subsection \<open>The visitor\<close>

text \<open>
  The branches of lines 220 to 233 against the stored kinds of the specification: a node
  outside the unit's file is passed over; a node of the unit's file is descended into,
  and a row of its stored kind is added unless its key is in the table or it has no
  stored kind.
\<close>

lemma visitor_eq:
  "visitor p tu n parent dbc =
     (if loc_file (location n) = Some (spelling tu)
      then (case spec_kind (get_ast_node_id p n) of
              None \<Rightarrow> Inr (dbc, RECURSE)
            | Some t \<Rightarrow>
                if symbol_key p tu n \<in> set (map primary_key (symbol (current dbc)))
                then Inr (dbc, RECURSE)
                else Inr (dbc\<lparr>current := (current dbc)\<lparr>symbol := symbol (current dbc) @
                            [(fst (symbol_key p tu n), fst (snd (symbol_key p tu n)),
                              fst (snd (snd (symbol_key p tu n))), snd (snd (snd (symbol_key p tu n))), t)]\<rparr>\<rparr>,
                          RECURSE))
      else Inr (dbc, CONTINUE))"
proof (cases "loc_file (location n) = Some (spelling tu)")
  case False
  then show ?thesis
    by (cases "loc_file (location n)") (simp_all add: visitor_def)
next
  case True
  then show ?thesis
    by (cases "get_ast_node_id p n")
       (simp_all add: visitor_def insert_symbol_def primary_key_def Let_def spec_kind_def symbol_key_def)
qed

lemma visitor_total: "\<exists>db1 r. visitor p tu n parent dbc = Inr (db1, r)"
  by (simp add: visitor_eq split: option.splits)

lemma visitor_keeps_primary_key:
  assumes "distinct (map primary_key (symbol (current dbc)))"
    and "visitor p tu n parent dbc = Inr (db1, r)"
  shows "distinct (map primary_key (symbol (current db1)))"
  using assms
  by (auto simp: visitor_eq primary_key_def split: if_splits option.splits)

lemma once_in_distinct:
  "distinct ks \<Longrightarrow> k \<in> set ks \<Longrightarrow> length (filter (\<lambda>x. x = k) ks) = 1"
  by (induction ks) (auto simp: filter_empty_conv)

text \<open>
  Claim C3: inserting a record whose primary key (filename, usr, line, column) is
  already in the store is a no-op; the store keeps exactly one row for that key and no
  error leaves the insert layer.

  For a table that satisfies its primary key constraint and a node of the unit's file
  whose key is in the table: the INSERT statement raises IntegrityError for a row of
  that key, whatever its kind; the visitor returns normally with the connection
  unchanged, and the table has exactly one row of that key. Every visit keeps the
  constraint (\<open>visitor_keeps_primary_key\<close>).
\<close>

theorem duplicate_key_insert_is_absorbed:
  assumes "distinct (map primary_key (symbol (current dbc)))"
    and "loc_file (location n) = Some (spelling tu)"
    and "symbol_key p tu n \<in> set (map primary_key (symbol (current dbc)))"
  shows "visitor p tu n parent dbc = Inr (dbc, RECURSE) \<and>
         length (filter (\<lambda>row. primary_key row = symbol_key p tu n) (symbol (current dbc))) = 1 \<and>
         (\<forall>t. insert_symbol dbc (fst (symbol_key p tu n), fst (snd (symbol_key p tu n)),
                              fst (snd (snd (symbol_key p tu n))), snd (snd (snd (symbol_key p tu n))), t)
               = Inl IntegrityError)"
proof -
  have a: "visitor p tu n parent dbc = Inr (dbc, RECURSE)"
    using assms(2,3) by (simp add: visitor_eq split: option.splits)
  have "length (filter (\<lambda>k. k = symbol_key p tu n) (map primary_key (symbol (current dbc)))) = 1"
    using assms(1,3) by (rule once_in_distinct)
  then have b: "length (filter (\<lambda>row. primary_key row = symbol_key p tu n) (symbol (current dbc))) = 1"
    by (simp add: filter_map comp_def)
  have c: "insert_symbol dbc (fst (symbol_key p tu n), fst (snd (symbol_key p tu n)),
                              fst (snd (snd (symbol_key p tu n))), snd (snd (snd (symbol_key p tu n))), t)
               = Inl IntegrityError" for t
    using assms(3) by (simp add: insert_symbol_def primary_key_def)
  from a b c show ?thesis by blast
qed


theorem duplicate_key_insert_is_absorbed_witness:
  "visitor demo_parser (demo_unit ''/p/a.cpp'') (demo_foo ''/p/a.cpp'')
     (cursor (demo_unit ''/p/a.cpp'')) demo_store = Inr (demo_store, RECURSE) \<and>
   length (filter (\<lambda>row. primary_key row = (''/p/a.cpp'', ''c:@F@foo#'', 1, 5))
             (symbol (current demo_store))) = 1 \<and>
   insert_symbol demo_store (''/p/a.cpp'', ''c:@F@foo#'', 1, 5, 3) = Inl IntegrityError"
  using duplicate_key_insert_is_absorbed
          [where dbc = demo_store and n = "demo_foo ''/p/a.cpp''" and tu = "demo_unit ''/p/a.cpp''"
             and p = demo_parser and parent = "cursor (demo_unit ''/p/a.cpp'')"]
  by (simp add: demo_store_def demo_foo_def demo_unit_def demo_parser_def symbol_key_def
        primary_key_def)

subsection \<open>The walk over a unit\<close>

lemma traverse_children_total:
  "\<exists>db1. traverse_children (visitor p tu) parent nodes dbc = Inr db1"
proof (induction "visitor p tu" parent nodes dbc rule: traverse_children.induct)
  case (1 parent db)
  then show ?case by simp
next
  case (2 parent node siblings db)
  obtain db1 r where v: "visitor p tu node parent db = Inr (db1, r)"
    using visitor_total by blast
  show ?case
  proof (cases r)
    case CONTINUE
    with v "2.hyps"(1) show ?thesis by simp
  next
    case RECURSE
    with v "2.hyps"(2) obtain db2 where
      c: "traverse_children (visitor p tu) node (get_children node) db1 = Inr db2"
      by blast
    with v RECURSE "2.hyps"(3) show ?thesis by simp
  qed
qed











subsection \<open>A worker never commits\<close>

text \<open>
  Whatever the slice and whatever the parser returns: when \<open>run_on_directory_impl\<close>
  returns, what is durable on its connection is what was durable when it connected, no
  store file has changed since, and the run has added no commit to the trace.
\<close>

lemma visitor_keeps_committed:
  "visitor p tu n parent dbc = Inr (db1, r) \<Longrightarrow>
   committed db1 = committed dbc \<and> conn_path db1 = conn_path dbc"
  by (auto simp: visitor_eq split: if_splits option.splits)

lemma traverse_children_keeps_committed:
  "traverse_children (visitor p tu) parent nodes dbc = Inr db2 \<Longrightarrow>
   committed db2 = committed dbc \<and> conn_path db2 = conn_path dbc"
proof (induction "visitor p tu" parent nodes dbc arbitrary: db2 rule: traverse_children.induct)
  case (1 parent db)
  then show ?case by simp
next
  case (2 parent node siblings db)
  obtain db1 r where v: "visitor p tu node parent db = Inr (db1, r)"
    using visitor_total by blast
  note k = visitor_keeps_committed[OF v]
  show ?case
  proof (cases r)
    case CONTINUE
    with v "2.prems" have t: "traverse_children (visitor p tu) parent siblings db1 = Inr db2"
      by simp
    from "2.hyps"(1)[OF v refl CONTINUE t] k show ?thesis by simp
  next
    case RECURSE
    obtain db3 where c: "traverse_children (visitor p tu) node (get_children node) db1 = Inr db3"
      using traverse_children_total by blast
    with v RECURSE "2.prems" have t: "traverse_children (visitor p tu) parent siblings db3 = Inr db2"
      by simp
    from "2.hyps"(3)[OF v refl RECURSE c t] "2.hyps"(2)[OF v refl RECURSE c] k
    show ?thesis by simp
  qed
qed

lemma index_single_file_never_commits:
  assumes "index_single_file self w proj_root contents original cargs dbc = Inr (db1, w1)"
  shows "committed db1 = committed dbc \<and> conn_path db1 = conn_path dbc \<and> files w1 = files w \<and>
         filter is_commit (trace w1) = filter is_commit (trace w)"
proof (cases "parse (parser self) contents original (Some cargs) (Some proj_root)")
  case None
  with assms show ?thesis
    by (auto simp: index_single_file_def Let_def emit_def)
next
  case (Some tunit)
  with assms obtain db2 where
    t: "traverse (cursor tunit) (visitor (parser self) tunit) dbc = Inr db2"
    and r: "db1 = db2" "w1 = emit (Log INFO) (emit (Parse contents original (Some cargs) (Some proj_root))
                                               (emit (Log INFO) w))"
    by (auto simp: index_single_file_def Let_def then_do_def split: sum.splits)
  from traverse_children_keeps_committed[OF t[unfolded traverse_def]] r show ?thesis
    by (simp add: emit_def)
qed

lemma index_files_never_commits:
  "index_files self proj_root cargs filename_list (dbc, w) = Inr (db1, w1) \<Longrightarrow>
   committed db1 = committed dbc \<and> conn_path db1 = conn_path dbc \<and> files w1 = files w \<and>
   filter is_commit (trace w1) = filter is_commit (trace w)"
proof (induction filename_list arbitrary: dbc w)
  case Nil
  then show ?case by simp
next
  case (Cons filename rest)
  show ?case
  proof (cases "filename = None \<or> filename = Some []")
    case True
    with Cons.prems have "index_files self proj_root cargs rest (dbc, w) = Inr (db1, w1)"
      by auto
    then show ?thesis by (rule Cons.IH)
  next
    case False
    then obtain f where f: "filename = Some f" "f \<noteq> []" by auto
    with Cons.prems obtain db2 w2 where
      s: "index_single_file self w proj_root f f cargs dbc = Inr (db2, w2)"
      and t: "index_files self proj_root cargs rest (db2, w2) = Inr (db1, w1)"
      by (auto simp: then_do_def split: sum.splits)
    from index_single_file_never_commits[OF s] Cons.IH[OF t] show ?thesis by simp
  qed
qed

lemma worker_never_commits:
  assumes "run_on_directory_impl self w proj_root cargs filename_list = Inr (db1, w1)"
  shows "\<exists>path. os_path_join (proj_root_directory self) indexer_db_name = Inr path \<and>
           committed db1 = committed (fst (connect path w)) \<and>
           files w1 = files (snd (connect path w)) \<and>
           filter is_commit (trace w1) = filter is_commit (trace w)"
proof -
  from assms obtain path where
    p: "os_path_join (proj_root_directory self) indexer_db_name = Inr path"
    and i: "index_files self proj_root cargs filename_list (connect path w) = Inr (db1, w1)"
    by (auto simp: run_on_directory_impl_def then_do_def split: sum.splits)
  obtain dbc w0 where c: "connect path w = (dbc, w0)" by (cases "connect path w")
  have "filter is_commit (trace w0) = filter is_commit (trace w)"
    using c by (auto simp: connect_def Let_def emit_def)
  with index_files_never_commits[OF i[unfolded c]] p c show ?thesis by simp
qed

subsection \<open>Finding references\<close>

text \<open>
  What \<open>find_all_references\<close> does once the file parses and a cursor is found at the
  position: nothing is looked up for a tag with no stored kind; for every other tag the
  rows of the cursor's identity are selected, logged one by one and handed to the
  callback without their kind.
\<close>

lemma find_all_references_eq:
  assumes "item args 0 = Inr a0"
    and "parse (parser self) (py_str a0) (py_str a0) (compiler_args self) (proj_root_directory self)
           = Some tu"
    and "item args 1 = Inr a1" and "py_int a1 = Inr line"
    and "item args 2 = Inr a2" and "py_int a2 = Inr column"
    and "map_source_location_to_cursor (parser self) tu line column = Some c"
  shows "find_all_references self w id' args =
     (case spec_kind (get_ast_node_id (parser self) c) of
        None \<Rightarrow>
          Inr (self,
               w\<lparr>trace := trace w @
                    [Parse (py_str a0) (py_str a0) (compiler_args self) (proj_root_directory self),
                     Log INFO, Log INFO, Log INFO] @
                    (if callback self then [Callback id' (References [])] else [])\<rparr>)
      | Some k \<Rightarrow>
          then_do
            (select_symbol_where_usr (db self)
               (case referenced c of Some r \<Rightarrow> get_usr r | None \<Rightarrow> get_usr c))
            (\<lambda>rows.
               Inr (self,
                    w\<lparr>trace := trace w @
                         [Parse (py_str a0) (py_str a0) (compiler_args self) (proj_root_directory self),
                          Log INFO] @ map (\<lambda>row. Log DEBUG) rows @ [Log INFO, Log INFO] @
                         (if callback self
                          then [Callback id' (References
                                  (map (\<lambda>(filename, usr, line, column, type).
                                          (filename, usr, line, column)) rows))]
                          else [])\<rparr>)))"
proof -
  have logs: "fold (\<lambda>row. emit (Log DEBUG)) rows v = v\<lparr>trace := trace v @ map (\<lambda>row. Log DEBUG) rows\<rparr>"
    for rows :: "row list" and v
    by (induction rows arbitrary: v) (simp_all add: emit_def)
  show ?thesis
    using assms
    by (cases "get_ast_node_id (parser self) c"; cases "select_symbol_where_usr (db self)
               (case referenced c of Some r \<Rightarrow> get_usr r | None \<Rightarrow> get_usr c)")
       (simp_all add: find_all_references_def then_do_def spec_kind_def Let_def emit_def logs)
qed


text \<open>
  Claim C9: the four branches of the dispatch on the cursor's kind (function or method;
  user-defined type; variable, parameter or field; macro) run the same lookup by
  identity, so the result does not depend on the branch taken.

  For a cursor with any of the thirteen tags of the four branches the operation equals
  one expression in which the tag does not occur: the selection of the rows of the
  cursor's identity (AttributeError when no connection is open), its log lines and the
  callback with those rows.
\<close>

theorem kind_branches_run_one_lookup:
  assumes "item args 0 = Inr file_arg"
    and "parse (parser self) (py_str file_arg) (py_str file_arg) (compiler_args self) (proj_root_directory self)
           = Some tu"
    and "item args 1 = Inr line_arg" and "py_int line_arg = Inr line"
    and "item args 2 = Inr column_arg" and "py_int column_arg = Inr column"
    and "map_source_location_to_cursor (parser self) tu line column = Some c"
    and "get_ast_node_id (parser self) c \<in>
           set [FunctionId, MethodId,
                ClassId, StructId, EnumId, EnumValueId, UnionId, TypedefId,
                LocalVariableId, FunctionParameterId, FieldId,
                MacroDefinitionId, MacroInstantiationId]"
  shows "find_all_references self w id' args =
     then_do
       (select_symbol_where_usr (db self)
          (case referenced c of Some r \<Rightarrow> get_usr r | None \<Rightarrow> get_usr c))
       (\<lambda>rows.
          Inr (self,
               w\<lparr>trace := trace w @
                    [Parse (py_str file_arg) (py_str file_arg) (compiler_args self) (proj_root_directory self),
                     Log INFO] @ map (\<lambda>row. Log DEBUG) rows @ [Log INFO, Log INFO] @
                    (if callback self
                     then [Callback id' (References
                             (map (\<lambda>(filename, usr, line, column, type).
                                     (filename, usr, line, column)) rows))]
                     else [])\<rparr>))"
proof -
  from assms(8) obtain k where "spec_kind (get_ast_node_id (parser self) c) = Some k"
    by (auto simp: spec_kind_def)
  with find_all_references_eq[OF assms(1-7)] show ?thesis by simp
qed

theorem kind_branches_run_one_lookup_witness:
  "map_sum id (\<lambda>(s, w). trace w)
     (find_all_references ((init demo_parser True 1)\<lparr>db := Some demo_indexed_store\<rparr>) demo_world 17
        [str_arg ''/p/a.cpp'', Arg ''2'' (Inr 2), Arg ''12'' (Inr 12)])
   = Inr [Parse ''/p/a.cpp'' ''/p/a.cpp'' None None, Log INFO, Log DEBUG, Log DEBUG, Log INFO, Log INFO,
          Callback 17 (References [(''/p/a.cpp'', ''c:@F@foo#'', 1, 5), (''/p/a.cpp'', ''c:@F@foo#'', 2, 12)])] \<and>
   map_sum id (\<lambda>(s, w). trace w)
     (find_all_references
        ((init (demo_parser\<lparr>get_ast_node_id := (\<lambda>c. MacroInstantiationId)\<rparr>) True 1)
           \<lparr>db := Some demo_indexed_store\<rparr>) demo_world 17
        [str_arg ''/p/a.cpp'', Arg ''2'' (Inr 2), Arg ''12'' (Inr 12)])
   = Inr [Parse ''/p/a.cpp'' ''/p/a.cpp'' None None, Log INFO, Log DEBUG, Log DEBUG, Log INFO, Log INFO,
          Callback 17 (References [(''/p/a.cpp'', ''c:@F@foo#'', 1, 5), (''/p/a.cpp'', ''c:@F@foo#'', 2, 12)])]"
  using kind_branches_run_one_lookup
          [where self = "(init demo_parser True 1)\<lparr>db := Some demo_indexed_store\<rparr>"
             and args = "[str_arg ''/p/a.cpp'', Arg ''2'' (Inr 2), Arg ''12'' (Inr 12)]"
             and file_arg = "str_arg ''/p/a.cpp''" and line_arg = "Arg ''2'' (Inr 2)" and column_arg = "Arg ''12'' (Inr 12)"
             and line = 2 and column = 12 and tu = "demo_unit ''/p/a.cpp''"
             and c = "demo_call ''/p/a.cpp''" and w = demo_world and id' = 17]
        kind_branches_run_one_lookup
          [where self = "(init (demo_parser\<lparr>get_ast_node_id := (\<lambda>c. MacroInstantiationId)\<rparr>) True 1)
                           \<lparr>db := Some demo_indexed_store\<rparr>"
             and args = "[str_arg ''/p/a.cpp'', Arg ''2'' (Inr 2), Arg ''12'' (Inr 12)]"
             and file_arg = "str_arg ''/p/a.cpp''" and line_arg = "Arg ''2'' (Inr 2)" and column_arg = "Arg ''12'' (Inr 12)"
             and line = 2 and column = 12 and tu = "demo_unit ''/p/a.cpp''"
             and c = "demo_call ''/p/a.cpp''" and w = demo_world and id' = 17]
  by (simp add: init_def item_def str_arg_def demo_parser_def demo_unit_def demo_call_def demo_foo_def
        demo_indexed_store_def demo_world_def select_symbol_where_usr_def then_do_def)


subsection \<open>The identity of a symbol\<close>

lemma visitor_new_row_usr:
  assumes "visitor p tu n parent dbc = Inr (db1, r)"
    and "row \<in> set (symbol (current db1))"
  shows "row \<in> set (symbol (current dbc)) \<or>
         fst (snd row) = (case referenced n of Some d \<Rightarrow> get_usr d | None \<Rightarrow> get_usr n)"
  using assms
  by (auto simp: visitor_eq symbol_key_def split: if_splits option.splits)

text \<open>
  Claim C6: for every node the indexer records and for every find-all-references
  query, the identity stored or looked up is the USR of the referenced declaration when
  the node (or cursor) has a referenced link, and the node's (or cursor's) own USR
  otherwise; a declaration and its use sites share one identity.

  First part: every row a visit adds has that USR. Second part: with a callback and an
  open connection, the references handed to the callback all have that USR, and for a
  cursor of a known kind they are exactly the stored rows of that USR, in table order.
  Third part: visiting a declaration (whose referenced link is absent or has the
  declaration's own USR) and then a node that references it adds rows of the
  declaration's USR only.
\<close>

theorem identity_is_usr_of_referenced_declaration:
  "(visitor p tu n parent dbc = Inr (db1, r) \<longrightarrow>
      (\<forall>row \<in> set (symbol (current db1)).
         row \<in> set (symbol (current dbc)) \<or>
         fst (snd row) = (case referenced n of Some d \<Rightarrow> get_usr d | None \<Rightarrow> get_usr n))) \<and>
   (item args 0 = Inr file_arg \<and>
    parse (parser self) (py_str file_arg) (py_str file_arg) (compiler_args self)
      (proj_root_directory self) = Some unit \<and>
    item args 1 = Inr line_arg \<and> py_int line_arg = Inr line \<and>
    item args 2 = Inr column_arg \<and> py_int column_arg = Inr column \<and>
    map_source_location_to_cursor (parser self) unit line column = Some c \<and>
    db self = Some conn \<and> callback self \<longrightarrow>
      (\<exists>refs w'. find_all_references self w id' args = Inr (self, w') \<and>
         last (trace w') = Callback id' (References refs) \<and>
         (\<forall>ref \<in> set refs.
            fst (snd ref) = (case referenced c of Some d \<Rightarrow> get_usr d | None \<Rightarrow> get_usr c)) \<and>
         (get_ast_node_id (parser self) c \<noteq> OtherId \<longrightarrow>
            refs = map (\<lambda>(filename, usr, line, column, type). (filename, usr, line, column))
                     (filter (\<lambda>row. fst (snd row) =
                                (case referenced c of Some d \<Rightarrow> get_usr d | None \<Rightarrow> get_usr c))
                        (symbol (current conn)))))) \<and>
   (referenced use = Some decl \<and>
    (case referenced decl of None \<Rightarrow> True | Some d \<Rightarrow> get_usr d = get_usr decl) \<and>
    visitor p tu decl parent dbc = Inr (db1, r) \<and>
    visitor p tu use parent' db1 = Inr (db2, r') \<longrightarrow>
      (\<forall>row \<in> set (symbol (current db2)).
         row \<in> set (symbol (current dbc)) \<or> fst (snd row) = get_usr decl))"
proof (intro conjI impI ballI)
  fix row
  assume "visitor p tu n parent dbc = Inr (db1, r)" and "row \<in> set (symbol (current db1))"
  then show "row \<in> set (symbol (current dbc)) \<or>
         fst (snd row) = (case referenced n of Some d \<Rightarrow> get_usr d | None \<Rightarrow> get_usr n)"
    by (rule visitor_new_row_usr)
next
  let ?usr = "case referenced c of Some d \<Rightarrow> get_usr d | None \<Rightarrow> get_usr c"
  let ?proj = "\<lambda>(filename, usr, line, column, type). (filename, usr, line :: int, column :: int)"
  assume h: "item args 0 = Inr file_arg \<and>
    parse (parser self) (py_str file_arg) (py_str file_arg) (compiler_args self)
      (proj_root_directory self) = Some unit \<and>
    item args 1 = Inr line_arg \<and> py_int line_arg = Inr line \<and>
    item args 2 = Inr column_arg \<and> py_int column_arg = Inr column \<and>
    map_source_location_to_cursor (parser self) unit line column = Some c \<and>
    db self = Some conn \<and> callback self"
  have sel: "select_symbol_where_usr (db self) ?usr
               = Inr (filter (\<lambda>row. fst (snd row) = ?usr) (symbol (current conn)))"
    using h by (simp add: select_symbol_where_usr_def case_prod_unfold)
  have eq: "find_all_references self w id' args =
     (case spec_kind (get_ast_node_id (parser self) c) of
        None \<Rightarrow>
          Inr (self,
               w\<lparr>trace := trace w @
                    [Parse (py_str file_arg) (py_str file_arg) (compiler_args self) (proj_root_directory self),
                     Log INFO, Log INFO, Log INFO] @ [Callback id' (References [])]\<rparr>)
      | Some k \<Rightarrow>
          Inr (self,
               w\<lparr>trace := trace w @
                    [Parse (py_str file_arg) (py_str file_arg) (compiler_args self) (proj_root_directory self),
                     Log INFO] @
                    map (\<lambda>row. Log DEBUG) (filter (\<lambda>row. fst (snd row) = ?usr) (symbol (current conn))) @
                    [Log INFO, Log INFO] @
                    [Callback id' (References
                       (map ?proj (filter (\<lambda>row. fst (snd row) = ?usr) (symbol (current conn)))))]\<rparr>))"
    using h find_all_references_eq[of args file_arg self unit line_arg line column_arg column c w id']
    unfolding sel
    by (cases "spec_kind (get_ast_node_id (parser self) c)") (simp_all add: then_do_def)
  have kinds: "get_ast_node_id (parser self) c \<noteq> OtherId \<Longrightarrow>
                 spec_kind (get_ast_node_id (parser self) c) \<noteq> None"
    by (cases "get_ast_node_id (parser self) c") (simp_all add: spec_kind_def)
  show "\<exists>refs w'. find_all_references self w id' args = Inr (self, w') \<and>
         last (trace w') = Callback id' (References refs) \<and>
         (\<forall>ref \<in> set refs. fst (snd ref) = ?usr) \<and>
         (get_ast_node_id (parser self) c \<noteq> OtherId \<longrightarrow>
            refs = map ?proj (filter (\<lambda>row. fst (snd row) = ?usr) (symbol (current conn))))"
  proof (cases "spec_kind (get_ast_node_id (parser self) c)")
    case None
    with eq kinds show ?thesis by auto
  next
    case (Some k)
    with eq show ?thesis by (auto simp: case_prod_unfold)
  qed
next
  fix row
  assume h: "referenced use = Some decl \<and>
    (case referenced decl of None \<Rightarrow> True | Some d \<Rightarrow> get_usr d = get_usr decl) \<and>
    visitor p tu decl parent dbc = Inr (db1, r) \<and>
    visitor p tu use parent' db1 = Inr (db2, r')"
    and row: "row \<in> set (symbol (current db2))"
  from h have u: "visitor p tu use parent' db1 = Inr (db2, r')"
    and d: "visitor p tu decl parent dbc = Inr (db1, r)" by simp_all
  from visitor_new_row_usr[OF u row] h
  consider "row \<in> set (symbol (current db1))" | "fst (snd row) = get_usr decl"
    by auto
  then show "row \<in> set (symbol (current dbc)) \<or> fst (snd row) = get_usr decl"
  proof cases
    case 1
    from visitor_new_row_usr[OF d 1] h show ?thesis
      by (auto split: option.splits)
  next
    case 2
    then show ?thesis by simp
  qed
qed


theorem identity_is_usr_of_referenced_declaration_witness:
  "visitor demo_parser (demo_unit ''/p/a.cpp'') (demo_call ''/p/a.cpp'')
     (cursor (demo_unit ''/p/a.cpp'')) demo_store
   = Inr (demo_store\<lparr>current := (current demo_store)\<lparr>symbol :=
            [(''/p/a.cpp'', ''c:@F@foo#'', 1, 5, 1), (''/p/a.cpp'', ''c:@F@foo#'', 2, 12, 1)]\<rparr>\<rparr>, RECURSE) \<and>
   get_usr (demo_call ''/p/a.cpp'') = [] \<and>
   referenced (demo_call ''/p/a.cpp'') = Some (demo_foo ''/p/a.cpp'') \<and>
   get_usr (demo_foo ''/p/a.cpp'') = ''c:@F@foo#'' \<and>
   map_sum id (\<lambda>(s, w). last (trace w))
     (find_all_references ((init demo_parser True 1)\<lparr>db := Some demo_indexed_store\<rparr>) demo_world 17
        [str_arg ''/p/a.cpp'', Arg ''2'' (Inr 2), Arg ''12'' (Inr 12)])
   = Inr (Callback 17 (References [(''/p/a.cpp'', ''c:@F@foo#'', 1, 5), (''/p/a.cpp'', ''c:@F@foo#'', 2, 12)]))"
proof -
  let ?tu = "demo_unit ''/p/a.cpp''"
  let ?self = "(init demo_parser True 1)\<lparr>db := Some demo_indexed_store\<rparr>"
  let ?args = "[str_arg ''/p/a.cpp'', Arg ''2'' (Inr 2), Arg ''12'' (Inr 12)]"
  let ?db1 = "demo_store\<lparr>current := (current demo_store)\<lparr>symbol :=
            [(''/p/a.cpp'', ''c:@F@foo#'', 1, 5, 1), (''/p/a.cpp'', ''c:@F@foo#'', 2, 12, 1)]\<rparr>\<rparr>"
  note defs = demo_unit_def demo_namespace_def demo_call_def demo_foo_def demo_parser_def
    demo_store_def demo_indexed_store_def demo_world_def spec_kind_def symbol_key_def
    primary_key_def init_def item_def str_arg_def
  note t = identity_is_usr_of_referenced_declaration
      [where p = demo_parser and tu = ?tu and n = "demo_call ''/p/a.cpp''" and parent = "cursor ?tu"
         and dbc = demo_store and ?db1.0 = ?db1 and r = RECURSE
         and self = ?self and args = ?args and file_arg = "str_arg ''/p/a.cpp''"
         and line_arg = "Arg ''2'' (Inr 2)" and column_arg = "Arg ''12'' (Inr 12)"
         and line = 2 and column = 12 and unit = ?tu and c = "demo_call ''/p/a.cpp''"
         and conn = demo_indexed_store and w = demo_world and id' = 17]
  have v: "visitor demo_parser ?tu (demo_call ''/p/a.cpp'') (cursor ?tu) demo_store = Inr (?db1, RECURSE)"
    by (simp add: visitor_eq defs)
  have hyps: "item ?args 0 = Inr (str_arg ''/p/a.cpp'') \<and>
     parse (parser ?self) (py_str (str_arg ''/p/a.cpp'')) (py_str (str_arg ''/p/a.cpp''))
       (compiler_args ?self) (proj_root_directory ?self) = Some ?tu \<and>
     item ?args 1 = Inr (Arg ''2'' (Inr 2)) \<and> py_int (Arg ''2'' (Inr 2)) = Inr 2 \<and>
     item ?args 2 = Inr (Arg ''12'' (Inr 12)) \<and> py_int (Arg ''12'' (Inr 12)) = Inr 12 \<and>
     map_source_location_to_cursor (parser ?self) ?tu 2 12 = Some (demo_call ''/p/a.cpp'') \<and>
     db ?self = Some demo_indexed_store \<and> callback ?self"
    by (simp add: defs)
  have kind: "get_ast_node_id (parser ?self) (demo_call ''/p/a.cpp'') \<noteq> OtherId"
    by (simp add: defs)
  from t hyps kind obtain refs w' where
    r: "find_all_references ?self demo_world 17 ?args = Inr (?self, w')"
       "last (trace w') = Callback 17 (References refs)"
       "refs = map (\<lambda>(filename, usr, line, column, type). (filename, usr, line, column))
                (filter (\<lambda>row. fst (snd row) =
                           (case referenced (demo_call ''/p/a.cpp'') of Some d \<Rightarrow> get_usr d
                            | None \<Rightarrow> get_usr (demo_call ''/p/a.cpp'')))
                   (symbol (current demo_indexed_store)))"
    by blast
  from r(3) have "refs = [(''/p/a.cpp'', ''c:@F@foo#'', 1, 5), (''/p/a.cpp'', ''c:@F@foo#'', 2, 12)]"
    by (simp add: defs)
  with r(1,2) have q: "map_sum id (\<lambda>(s, w). last (trace w))
     (find_all_references ?self demo_world 17 ?args)
     = Inr (Callback 17 (References [(''/p/a.cpp'', ''c:@F@foo#'', 1, 5), (''/p/a.cpp'', ''c:@F@foo#'', 2, 12)]))"
    by simp
  from v q show ?thesis by (simp add: demo_call_def demo_foo_def)
qed


subsection \<open>The operations\<close>

text \<open>Opening a store file that exists changes no file.\<close>

lemma connect_existing:
  assumes "files w path = Some d"
  shows "connect path w =
           (\<lparr>conn_path = path, committed = d, current = d\<rparr>, w\<lparr>trace := trace w @ [Connect path]\<rparr>)"
proof -
  have "(files w)(path \<mapsto> d) = files w"
    using assms by (simp add: fun_upd_idem)
  then show ?thesis
    using assms by (simp add: connect_def emit_def)
qed

text \<open>
  Claim C4: when a store file exists at the project root, an index-directory request
  performs no parse and no store write, whatever the store holds; it logs and invokes
  the callback.

  For a request with code 1 and the two arguments of the operation, on a machine where
  the store file of the root exists with any content: the operation returns normally,
  no file changes, the trace gains the opening of the store, one log line and the
  callback with the code and the arguments (when a callback is set), with no parser run
  and no commit; the connection left in \<^verbatim>\<open>self.db\<close> has nothing uncommitted.
\<close>

theorem indexed_directory_is_skipped:
  assumes "py_int code_arg = Inr 1"
    and "item args 0 = Inr root_arg"
    and "item args 1 = Inr flags_arg"
    and "files w (posix_join (py_str root_arg) indexer_db_name) = Some stored"
  shows "call self w (code_arg # args) =
           Inr (self\<lparr>proj_root_directory := Some (py_str root_arg),
                      compiler_args := Some (py_str flags_arg),
                      db := Some \<lparr>conn_path = posix_join (py_str root_arg) indexer_db_name,
                                  committed = stored, current = stored\<rparr>\<rparr>,
                w\<lparr>trace := trace w @
                     [Connect (posix_join (py_str root_arg) indexer_db_name), Log INFO] @
                     (if callback self then [Callback 1 (Args args)] else [])\<rparr>)"
  using assms
  by (simp add: call_def item_def then_do_def op_def run_on_directory_def Let_def
        os_path_exists_def connect_existing emit_def)

theorem indexed_directory_is_skipped_witness:
  "map_sum id (\<lambda>(s, w). (db s, trace w, files w ''/p/indexer.db''))
     (call (init demo_parser True 1) demo_indexed_world
        [Arg ''1'' (Inr 1), str_arg ''/p'', str_arg ''-std=c++11''])
   = Inr (Some demo_indexed_store,
          [Connect ''/p/indexer.db'', Log INFO,
           Callback 1 (Args [str_arg ''/p'', str_arg ''-std=c++11''])],
          Some (committed demo_indexed_store))"
  using indexed_directory_is_skipped
          [where code_arg = "Arg ''1'' (Inr 1)" and args = "[str_arg ''/p'', str_arg ''-std=c++11'']"
             and root_arg = "str_arg ''/p''" and flags_arg = "str_arg ''-std=c++11''"
             and w = demo_indexed_world and stored = "committed demo_indexed_store"
             and self = "init demo_parser True 1"]
  by (simp add: item_def str_arg_def posix_join_def indexer_db_name_def demo_indexed_world_def
        demo_indexed_store_def init_def)

text \<open>
  Claim C8: dispatching an operation code that is not in the table is a silent no-op:
  it is logged, no store is changed and the callback is not invoked.

  For a code other than 0, 1, 2, 3, 0x10 and 0x11 the indexer is returned as it was and
  the outside world only gains one log line of level ERROR.
\<close>

theorem unknown_operation_is_logged_only:
  assumes "py_int code_arg = Inr code"
    and "code \<notin> set [0, 1, 2, 3, 16, 17]"
  shows "call self w (code_arg # args) = Inr (self, w\<lparr>trace := trace w @ [Log ERROR]\<rparr>)"
  using assms
  by (simp add: call_def item_def then_do_def op_def unknown_op_def emit_def)

theorem unknown_operation_is_logged_only_witness:
  "map_sum id (\<lambda>(s, w). (db s, trace w, files w ''/p/indexer.db''))
     (call (init demo_parser True 1) demo_indexed_world [Arg ''4'' (Inr 4), str_arg ''/p''])
   = Inr (None, [Log ERROR], Some (committed demo_indexed_store))"
  using unknown_operation_is_logged_only
          [where code_arg = "Arg ''4'' (Inr 4)" and code = 4 and args = "[str_arg ''/p'']"
             and self = "init demo_parser True 1" and w = demo_indexed_world]
  by (simp add: demo_indexed_world_def init_def)

text \<open>
  An index-single-file request whose two paths differ, on an indexer whose
  \<^verbatim>\<open>self.proj_root_directory\<close> is set and whose store exists: the store is opened,
  nothing is parsed, written or committed, and the callback is invoked.
\<close>

lemma single_file_mismatch_skips_indexing:
  assumes "item args 0 = Inr root_arg" and "item args 1 = Inr contents_arg"
    and "item args 2 = Inr original_arg" and "item args 3 = Inr flags_arg"
    and "py_str contents_arg \<noteq> py_str original_arg"
    and "proj_root_directory self = Some root"
    and "files w (posix_join root indexer_db_name) = Some stored"
  shows "run_on_single_file self w id' args =
           Inr (self\<lparr>db := Some \<lparr>conn_path = posix_join root indexer_db_name,
                                  committed = stored, current = stored\<rparr>\<rparr>,
                w\<lparr>trace := trace w @ [Connect (posix_join root indexer_db_name)] @
                     (if callback self then [Callback id' (Args args)] else [])\<rparr>)"
  using assms
  by (simp add: run_on_single_file_def then_do_def Let_def os_path_join_def indexer_db_name_def
        connect_existing emit_def)

text \<open>
  Claim C10: an index-single-file request whose contents path differs from the original
  path performs no parse, no store write and no commit, and the callback is still
  invoked with the operation code and the arguments.

  That is what the operation does once an earlier index-directory request has set
  \<^verbatim>\<open>self.proj_root_directory\<close> and the store of that root exists
  (\<open>single_file_mismatch_skips_indexing\<close>). On an indexer that has not indexed a
  directory the attribute is \<^verbatim>\<open>None\<close>, line 52 raises in \<^verbatim>\<open>os.path.join\<close>,
  and the request ends with AttributeError before the callback of line 59.
\<close>

theorem single_file_without_project_root_raises:
  "map_sum id (\<lambda>(s, w). trace w)
     (call (init demo_parser True 1) demo_indexed_world
        [Arg ''0'' (Inr 0), str_arg ''/p'', str_arg ''/tmp/a.cpp.swp'', str_arg ''/p/a.cpp'', str_arg []])
   = Inl AttributeError"
  by (simp add: call_def item_def then_do_def op_def run_on_single_file_def init_def
        os_path_join_def indexer_db_name_def str_arg_def)

text \<open>
  Claim C7: every operation, index-single-file with its \<^verbatim>\<open>project_root\<close> argument
  included, opens the store at \<^verbatim>\<open><project_root>/indexer.db\<close> of the project root of
  its own request.

  Line 47 reads the root of the request into a local variable, and line 52 builds the
  path from \<^verbatim>\<open>self.proj_root_directory\<close>, which only index-directory sets. After an
  index-directory request for \<^verbatim>\<open>/p\<close>, an index-single-file request for the root
  \<^verbatim>\<open>/q\<close> opens \<^verbatim>\<open>/p/indexer.db\<close>, commits the rows of \<^verbatim>\<open>/q/b.cpp\<close> there
  and leaves no store at \<^verbatim>\<open>/q/indexer.db\<close>.
\<close>

theorem single_file_opens_store_of_earlier_root:
  "map_sum id (\<lambda>(s, w). (map_option conn_path (db s), trace w, files w ''/q/indexer.db'',
                           map_option symbol (files w ''/p/indexer.db'')))
     (then_do
        (call (init demo_parser True 1) demo_indexed_world [Arg ''1'' (Inr 1), str_arg ''/p'', str_arg []])
        (\<lambda>(s, w). call s w [Arg ''0'' (Inr 0), str_arg ''/q'', str_arg ''/q/b.cpp'', str_arg ''/q/b.cpp'',
                            str_arg []]))
   = Inr (Some ''/p/indexer.db'',
          [Connect ''/p/indexer.db'', Log INFO, Callback 1 (Args [str_arg ''/p'', str_arg []]),
           Connect ''/p/indexer.db'', Log INFO,
           Parse ''/q/b.cpp'' ''/q/b.cpp'' (Some []) (Some ''/q''), Log INFO,
           Commit ''/p/indexer.db'',
           Callback 0 (Args [str_arg ''/q'', str_arg ''/q/b.cpp'', str_arg ''/q/b.cpp'', str_arg []])],
          None,
          Some [(''/p/a.cpp'', ''c:@F@foo#'', 1, 5, 1), (''/p/b.cpp'', ''c:@F@bar#'', 3, 6, 1),
                (''/p/a.cpp'', ''c:@F@foo#'', 2, 12, 1),
                (''/q/b.cpp'', ''c:@F@foo#'', 1, 5, 1), (''/q/b.cpp'', ''c:@F@foo#'', 2, 12, 1)])"
  by code_simp


end
